theory Spec2Isabelle
  imports Complex_Main
begin

section \<open>JavaScript values\<close>

text \<open>
  The server of \<^verbatim>\<open>src/server.js\<close> works on values that come out of a JSON parser
  (the request body read by \<^verbatim>\<open>express.json()\<close>, the upstream body read by
  \<^verbatim>\<open>apiResponse.json()\<close>) and on the objects it builds itself. They are modelled by
  one datatype. \<open>JUndefined\<close> is the value of a missing property; a parser never
  produces it, the code does (\<^verbatim>\<open>msg.content\<close> of a message without content).
  A number is a rational: the program never computes with numbers, it only tests them
  for truthiness and prints them, and printing is left to the runtime
  (\<open>num_to_string\<close>, \<open>stringify\<close> below). \<open>JObj\<close> lists an object's own
  properties in enumeration order, with distinct keys; a lookup takes the first entry.
\<close>

datatype jsval =
    JUndefined
  | JNull
  | JBool bool
  | JNum rat
  | JStr string
  | JArr "jsval list"
  | JObj "(string \<times> jsval) list"

text \<open>
  What the code can throw. \<open>TypeError k\<close> is the engine's TypeError raised while
  reading property \<open>k\<close> (or while converting an object to a string, with
  \<open>k = ''toString''\<close>, or calling an array method \<open>k\<close> on a value that has none).
  \<open>Failure m\<close> is an Error raised by the HTTP client (\<^verbatim>\<open>fetch\<close>,
  \<^verbatim>\<open>apiResponse.json()\<close>) whose \<^verbatim>\<open>message\<close> is the text \<open>m\<close>, possibly empty.
\<close>

datatype exn = TypeError string | Failure string

fun truthy :: "jsval \<Rightarrow> bool" where
  "truthy JUndefined = False"
| "truthy JNull = False"
| "truthy (JBool b) = b"
| "truthy (JNum n) = (n \<noteq> 0)"
| "truthy (JStr s) = (s \<noteq> [])"
| "truthy (JArr xs) = True"
| "truthy (JObj kvs) = True"

fun nullish :: "jsval \<Rightarrow> bool" where
  "nullish JUndefined = True"
| "nullish JNull = True"
| "nullish v = False"

fun is_string :: "jsval \<Rightarrow> bool" where
  "is_string (JStr s) = True"
| "is_string v = False"

fun is_array :: "jsval \<Rightarrow> bool" where
  "is_array (JArr xs) = True"
| "is_array v = False"

text \<open>
  \<^verbatim>\<open>v.k\<close> on a value that is neither null nor undefined, for the property names the
  server reads (provider, apiKey, model, messages, customEndpoint, role, content,
  candidates, parts, text, choices, message, response, error): none of them is a
  property of a prototype, so only an object's own entry can answer.
\<close>

fun own_prop :: "jsval \<Rightarrow> string \<Rightarrow> jsval" where
  "own_prop (JObj kvs) k = (case map_of kvs k of Some v \<Rightarrow> v | None \<Rightarrow> JUndefined)"
| "own_prop v k = JUndefined"

text \<open>\<^verbatim>\<open>v.k\<close>: a TypeError on null and undefined.\<close>

definition get_prop :: "jsval \<Rightarrow> string \<Rightarrow> exn + jsval" where
  "get_prop v k = (if nullish v then Inl (TypeError k) else Inr (own_prop v k))"

text \<open>\<^verbatim>\<open>v?.k\<close>: undefined on null and undefined.\<close>

definition opt_prop :: "jsval \<Rightarrow> string \<Rightarrow> jsval" where
  "opt_prop v k = (if nullish v then JUndefined else own_prop v k)"

text \<open>
  \<^verbatim>\<open>v[0]\<close> on a value that is neither null nor undefined: the first element of an
  array, the first character of a string, the property \<^verbatim>\<open>"0"\<close> of an object.
\<close>

fun index0 :: "jsval \<Rightarrow> jsval" where
  "index0 (JArr xs) = (case xs of [] \<Rightarrow> JUndefined | x # rest \<Rightarrow> x)"
| "index0 (JStr s) = (case s of [] \<Rightarrow> JUndefined | c # rest \<Rightarrow> JStr [c])"
| "index0 (JObj kvs) = (case map_of kvs ''0'' of Some v \<Rightarrow> v | None \<Rightarrow> JUndefined)"
| "index0 v = JUndefined"

text \<open>\<^verbatim>\<open>v?.[0]\<close>\<close>

definition opt_index0 :: "jsval \<Rightarrow> jsval" where
  "opt_index0 v = (if nullish v then JUndefined else index0 v)"

text \<open>\<^verbatim>\<open>a || b\<close> on values.\<close>

definition js_or :: "jsval \<Rightarrow> jsval \<Rightarrow> jsval" where
  "js_or a b = (if truthy a then a else b)"

text \<open>
  \<^verbatim>\<open>a || b\<close> where either side may throw: the right side is evaluated only when the
  left one is falsy.
\<close>

definition or_else :: "exn + jsval \<Rightarrow> exn + jsval \<Rightarrow> exn + jsval" where
  "or_else a b = (case a of Inl e \<Rightarrow> Inl e | Inr v \<Rightarrow> if truthy v then Inr v else b)"

text \<open>
  The string a template literal \<^verbatim>\<open>`${v}`\<close> inserts. An array is joined with commas,
  null and undefined elements giving the empty string; an object gives
  \<^verbatim>\<open>[object Object]\<close>, unless it has an own property \<^verbatim>\<open>toString\<close>: that one is
  a JSON value, not callable, and the conversion throws a TypeError. The text of a
  number is the runtime's (\<open>N\<close>).
\<close>

fun to_string :: "(rat \<Rightarrow> string) \<Rightarrow> jsval \<Rightarrow> exn + string"
  and join_elems :: "(rat \<Rightarrow> string) \<Rightarrow> jsval list \<Rightarrow> exn + string"
where
  "to_string N JUndefined = Inr ''undefined''"
| "to_string N JNull = Inr ''null''"
| "to_string N (JBool b) = Inr (if b then ''true'' else ''false'')"
| "to_string N (JNum n) = Inr (N n)"
| "to_string N (JStr s) = Inr s"
| "to_string N (JArr xs) = join_elems N xs"
| "to_string N (JObj kvs) =
     (if ''toString'' \<in> set (map fst kvs) then Inl (TypeError ''toString'')
      else Inr ''[object Object]'')"
| "join_elems N [] = Inr []"
| "join_elems N (x # xs) =
     (case (if nullish x then Inr [] else to_string N x) of
        Inl e \<Rightarrow> Inl e
      | Inr s \<Rightarrow>
          (case xs of
             [] \<Rightarrow> Inr s
           | y # ys \<Rightarrow>
               (case join_elems N xs of
                  Inl e \<Rightarrow> Inl e
                | Inr t \<Rightarrow> Inr (s @ '','' @ t))))"

section \<open>Array methods with callbacks that may throw\<close>

fun array_map :: "(jsval \<Rightarrow> exn + jsval) \<Rightarrow> jsval list \<Rightarrow> exn + jsval list" where
  "array_map f [] = Inr []"
| "array_map f (x # xs) =
     (case f x of
        Inl e \<Rightarrow> Inl e
      | Inr y \<Rightarrow> (case array_map f xs of Inl e \<Rightarrow> Inl e | Inr ys \<Rightarrow> Inr (y # ys)))"

text \<open>\<^verbatim>\<open>find\<close> stops at the first element the callback accepts; undefined when none.\<close>

fun array_find :: "(jsval \<Rightarrow> exn + bool) \<Rightarrow> jsval list \<Rightarrow> exn + jsval" where
  "array_find p [] = Inr JUndefined"
| "array_find p (x # xs) =
     (case p x of
        Inl e \<Rightarrow> Inl e
      | Inr b \<Rightarrow> if b then Inr x else array_find p xs)"

fun array_filter :: "(jsval \<Rightarrow> exn + bool) \<Rightarrow> jsval list \<Rightarrow> exn + jsval list" where
  "array_filter p [] = Inr []"
| "array_filter p (x # xs) =
     (case p x of
        Inl e \<Rightarrow> Inl e
      | Inr b \<Rightarrow>
          (case array_filter p xs of
             Inl e \<Rightarrow> Inl e
           | Inr ys \<Rightarrow> Inr (if b then x # ys else ys)))"

text \<open>
  \<^verbatim>\<open>{ ...target, ...source }\<close> on property lists: a key the target has keeps its
  place and takes the new value, a new key goes to the end.
\<close>

fun obj_set :: "(string \<times> jsval) list \<Rightarrow> string \<Rightarrow> jsval \<Rightarrow> (string \<times> jsval) list" where
  "obj_set [] k v = [(k, v)]"
| "obj_set ((k', v') # kvs) k v =
     (if k' = k then (k, v) # kvs else (k', v') # obj_set kvs k v)"

fun obj_spread :: "(string \<times> jsval) list \<Rightarrow> (string \<times> jsval) list \<Rightarrow> (string \<times> jsval) list" where
  "obj_spread target [] = target"
| "obj_spread target ((k, v) # kvs) = obj_spread (obj_set target k v) kvs"

section \<open>formatMessagesForProvider\<close>

text \<open>
  The callback of the gemini branch:
  \<^verbatim>\<open>msg => ({ role: msg.role === 'assistant' ? 'model' : 'user', parts: [{ text: msg.content }] })\<close>
\<close>

definition gemini_content :: "jsval \<Rightarrow> exn + jsval" where
  "gemini_content msg =
     (case get_prop msg ''role'' of
        Inl e \<Rightarrow> Inl e
      | Inr r \<Rightarrow>
          (case get_prop msg ''content'' of
             Inl e \<Rightarrow> Inl e
           | Inr c \<Rightarrow>
               Inr (JObj [(''role'', JStr (if r = JStr ''assistant'' then ''model'' else ''user'')),
                          (''parts'', JArr [JObj [(''text'', c)]])])))"

text \<open>\<^verbatim>\<open>m => m.role === 'system'\<close> and \<^verbatim>\<open>m => m.role !== 'system'\<close>\<close>

definition is_system :: "jsval \<Rightarrow> exn + bool" where
  "is_system m = (case get_prop m ''role'' of Inl e \<Rightarrow> Inl e | Inr r \<Rightarrow> Inr (r = JStr ''system''))"

definition not_system :: "jsval \<Rightarrow> exn + bool" where
  "not_system m = (case get_prop m ''role'' of Inl e \<Rightarrow> Inl e | Inr r \<Rightarrow> Inr (r \<noteq> JStr ''system''))"

text \<open>
  The function returns an object literal; the model returns its property list. A
  value that is not an array has no \<^verbatim>\<open>map\<close>, \<^verbatim>\<open>find\<close> or \<^verbatim>\<open>filter\<close> to call:
  a TypeError. In the anthropic branch \<^verbatim>\<open>...(systemMsg && { system: systemMsg.content })\<close>
  adds the property when \<^verbatim>\<open>systemMsg\<close> is truthy and nothing otherwise.
\<close>

definition formatMessagesForProvider ::
  "jsval \<Rightarrow> jsval \<Rightarrow> exn + (string \<times> jsval) list" where
  "formatMessagesForProvider provider messages =
     (if provider = JStr ''gemini'' then
        (case messages of
           JArr ms \<Rightarrow>
             (case array_map gemini_content ms of
                Inl e \<Rightarrow> Inl e
              | Inr cs \<Rightarrow> Inr [(''contents'', JArr cs)])
         | _ \<Rightarrow> Inl (TypeError ''map''))
      else if provider = JStr ''openai'' then
        Inr [(''messages'', messages),
             (''temperature'', JNum (7 / 10)),
             (''max_tokens'', JNum 2000)]
      else if provider = JStr ''anthropic'' then
        (case messages of
           JArr ms \<Rightarrow>
             (case array_find is_system ms of
                Inl e \<Rightarrow> Inl e
              | Inr systemMsg \<Rightarrow>
                  (case array_filter not_system ms of
                     Inl e \<Rightarrow> Inl e
                   | Inr conversationMsgs \<Rightarrow>
                       Inr (obj_spread
                            [(''messages'', JArr conversationMsgs),
                             (''max_tokens'', JNum 2000)]
                            (if truthy systemMsg
                             then [(''system'', own_prop systemMsg ''content'')]
                             else []))))
         | _ \<Rightarrow> Inl (TypeError ''find''))
      else Inr [(''messages'', messages)])"

section \<open>extractResponseText\<close>

text \<open>
  The body of the \<^verbatim>\<open>try\<close> block. \<open>S\<close> is \<^verbatim>\<open>JSON.stringify\<close>. Only the first
  property read of each chain (\<^verbatim>\<open>data.candidates\<close>, \<^verbatim>\<open>data.response\<close>, ...) is
  not optional, so only it can throw.
\<close>

definition choices_path :: "jsval \<Rightarrow> jsval" where
  "choices_path choices = opt_prop (opt_prop (opt_index0 choices) ''message'') ''content''"

definition content_path :: "jsval \<Rightarrow> jsval" where
  "content_path content = opt_prop (opt_index0 content) ''text''"

definition candidates_path :: "jsval \<Rightarrow> jsval" where
  "candidates_path candidates =
     opt_prop (opt_index0 (opt_prop (opt_prop (opt_index0 candidates) ''content'') ''parts'')) ''text''"

definition extract_try :: "(jsval \<Rightarrow> string) \<Rightarrow> jsval \<Rightarrow> jsval \<Rightarrow> exn + jsval" where
  "extract_try S provider data =
     (if provider = JStr ''gemini'' then
        (case get_prop data ''candidates'' of
           Inl e \<Rightarrow> Inl e
         | Inr c \<Rightarrow> Inr (js_or (candidates_path c) (JStr ''No response generated'')))
      else if provider = JStr ''openai'' then
        (case get_prop data ''choices'' of
           Inl e \<Rightarrow> Inl e
         | Inr c \<Rightarrow> Inr (js_or (choices_path c) (JStr ''No response generated'')))
      else if provider = JStr ''anthropic'' then
        (case get_prop data ''content'' of
           Inl e \<Rightarrow> Inl e
         | Inr c \<Rightarrow> Inr (js_or (content_path c) (JStr ''No response generated'')))
      else if provider = JStr ''custom'' then
        or_else (get_prop data ''response'')
       (or_else (get_prop data ''message'')
       (or_else (get_prop data ''text'')
       (or_else (case get_prop data ''choices'' of
                   Inl e \<Rightarrow> Inl e | Inr c \<Rightarrow> Inr (choices_path c))
       (or_else (case get_prop data ''content'' of
                   Inl e \<Rightarrow> Inl e | Inr c \<Rightarrow> Inr (content_path c))
                (Inr (JStr (S data)))))))
      else Inr (JStr ''Unknown response format''))"

definition extractResponseText :: "(jsval \<Rightarrow> string) \<Rightarrow> jsval \<Rightarrow> jsval \<Rightarrow> jsval" where
  "extractResponseText S provider data =
     (case extract_try S provider data of
        Inl e \<Rightarrow> JStr ''Error parsing response''
      | Inr v \<Rightarrow> v)"

section \<open>The chat endpoint\<close>

text \<open>
  What \<^verbatim>\<open>res.status(c).json(v)\<close> sends: the status and the JSON payload
  (\<^verbatim>\<open>res.json(v)\<close> alone sends status 200).
\<close>

record response =
  status :: nat
  payload :: jsval

definition failure :: "nat \<Rightarrow> jsval \<Rightarrow> response" where
  "failure c m = \<lparr>status = c, payload = JObj [(''success'', JBool False), (''error'', m)]\<rparr>"

definition success :: "jsval \<Rightarrow> response" where
  "success v = \<lparr>status = 200, payload = JObj [(''success'', JBool True), (''response'', v)]\<rparr>"

text \<open>
  The three variables the \<^verbatim>\<open>switch\<close> of the handler fills in: \<^verbatim>\<open>endpoint\<close>,
  \<^verbatim>\<open>headers\<close> (in insertion order) and \<^verbatim>\<open>body\<close>, the object before it is
  serialized. A header value is a string where the code builds it with a template
  literal, and the caller's value as it is where the code assigns it
  (\<^verbatim>\<open>headers['x-api-key'] = apiKey\<close>).
\<close>

record provider_request =
  endpoint :: jsval
  headers :: "(string \<times> jsval) list"
  body :: jsval

text \<open>
  A step of the handler throws, returns a response at once, or goes on with a value.
\<close>

datatype 'a step = Throws exn | Responds response | Continues 'a

definition gemini_endpoint :: "string \<Rightarrow> string" where
  "gemini_endpoint model =
     ''https://generativelanguage.googleapis.com/v1beta/models/'' @ model @ '':generateContent''"

text \<open>
  The \<^verbatim>\<open>switch (provider)\<close> of the handler, lines 116 to 159. \<open>N\<close> prints a number
  inside a template literal.
\<close>

definition adapt ::
  "(rat \<Rightarrow> string) \<Rightarrow> jsval \<Rightarrow> jsval \<Rightarrow> jsval \<Rightarrow> jsval \<Rightarrow> jsval \<Rightarrow> provider_request step" where
  "adapt N provider apiKey model messages customEndpoint =
     (if provider = JStr ''gemini'' then
        (case to_string N (js_or model (JStr ''gemini-2.0-flash-exp'')) of
           Inl e \<Rightarrow> Throws e
         | Inr m \<Rightarrow>
             (case to_string N apiKey of
                Inl e \<Rightarrow> Throws e
              | Inr k \<Rightarrow>
                  (case formatMessagesForProvider (JStr ''gemini'') messages of
                     Inl e \<Rightarrow> Throws e
                   | Inr b \<Rightarrow>
                       Continues
                         \<lparr>endpoint = JStr (gemini_endpoint m @ ''?key='' @ k),
                          headers = [(''Content-Type'', JStr ''application/json'')],
                          body = JObj b\<rparr>)))
      else if provider = JStr ''openai'' then
        (case to_string N apiKey of
           Inl e \<Rightarrow> Throws e
         | Inr k \<Rightarrow>
             (case formatMessagesForProvider (JStr ''openai'') messages of
                Inl e \<Rightarrow> Throws e
              | Inr b \<Rightarrow>
                  Continues
                    \<lparr>endpoint = JStr ''https://api.openai.com/v1/chat/completions'',
                     headers = [(''Content-Type'', JStr ''application/json''),
                                (''Authorization'', JStr (''Bearer '' @ k))],
                     body = JObj (obj_spread [(''model'', js_or model (JStr ''gpt-4o-mini''))] b)\<rparr>))
      else if provider = JStr ''anthropic'' then
        (case formatMessagesForProvider (JStr ''anthropic'') messages of
           Inl e \<Rightarrow> Throws e
         | Inr b \<Rightarrow>
             Continues
               \<lparr>endpoint = JStr ''https://api.anthropic.com/v1/messages'',
                headers = [(''Content-Type'', JStr ''application/json''),
                           (''x-api-key'', apiKey),
                           (''anthropic-version'', JStr ''2023-06-01'')],
                body = JObj (obj_spread
                               [(''model'', js_or model (JStr ''claude-3-5-sonnet-20241022''))] b)\<rparr>)
      else if provider = JStr ''custom'' then
        (if \<not> truthy customEndpoint then
           Responds (failure 400 (JStr ''Custom endpoint required for custom provider''))
         else
           (case to_string N apiKey of
              Inl e \<Rightarrow> Throws e
            | Inr k \<Rightarrow>
                (case formatMessagesForProvider (JStr ''custom'') messages of
                   Inl e \<Rightarrow> Throws e
                 | Inr b \<Rightarrow>
                     Continues
                       \<lparr>endpoint = customEndpoint,
                        headers = [(''Content-Type'', JStr ''application/json''),
                                   (''Authorization'', JStr (''Bearer '' @ k))],
                        body = JObj b\<rparr>)))
      else
        (case to_string N provider of
           Inl e \<Rightarrow> Throws e
         | Inr p \<Rightarrow> Responds (failure 400 (JStr (''Unsupported provider: '' @ p)))))"

text \<open>
  The outbound call \<^verbatim>\<open>fetch(endpoint, { method: 'POST', headers, body: JSON.stringify(body) })\<close>
  and its outcome: the promise rejects, or it resolves to a reply with a status whose
  \<^verbatim>\<open>json()\<close> either rejects or gives the parsed body.
\<close>

record fetch_call =
  call_url :: jsval
  call_method :: string
  call_headers :: "(string \<times> jsval) list"
  call_body :: string

datatype fetch_result = Rejects exn | Replies nat "exn + jsval"

text \<open>
  What the handler takes from outside: the text of a number, \<^verbatim>\<open>JSON.stringify\<close>,
  the message the engine gives a TypeError, and the HTTP client.
\<close>

record runtime =
  num_to_string :: "rat \<Rightarrow> string"
  stringify :: "jsval \<Rightarrow> string"
  type_error_message :: "string \<Rightarrow> string"
  fetch :: "fetch_call \<Rightarrow> fetch_result"

text \<open>
  The arguments of the call at lines 163 to 167:
  \<^verbatim>\<open>fetch(endpoint, { method: 'POST', headers: headers, body: JSON.stringify(body) })\<close>
\<close>

definition outbound_call :: "runtime \<Rightarrow> provider_request \<Rightarrow> fetch_call" where
  "outbound_call rt pr =
     \<lparr>call_url = endpoint pr, call_method = ''POST'', call_headers = headers pr,
      call_body = stringify rt (body pr)\<rparr>"

text \<open>\<^verbatim>\<open>apiResponse.ok\<close>\<close>

definition ok :: "nat \<Rightarrow> bool" where
  "ok st = (200 \<le> st \<and> st < 300)"

text \<open>The branch \<^verbatim>\<open>if (!apiResponse.ok)\<close>, lines 171 to 186.\<close>

definition upstream_error :: "(jsval \<Rightarrow> string) \<Rightarrow> nat \<Rightarrow> jsval \<Rightarrow> exn + response" where
  "upstream_error S st responseData =
     (case get_prop responseData ''error'' of
        Inl e \<Rightarrow> Inl e
      | Inr err \<Rightarrow>
          Inr (failure st
            (if truthy err then
               (if is_string err then err
                else js_or (own_prop err ''message'') (JStr (S err)))
             else JStr ''API request failed'')))"

text \<open>
  The body of the handler's \<^verbatim>\<open>try\<close> block: the response or the exception, and
  the outbound calls made on the way.
\<close>

definition handler_try :: "runtime \<Rightarrow> jsval \<Rightarrow> (exn + response) \<times> fetch_call list" where
  "handler_try rt reqBody =
     (if nullish reqBody then (Inl (TypeError ''provider''), [])
      else
        let provider = own_prop reqBody ''provider'';
            apiKey = own_prop reqBody ''apiKey'';
            model = own_prop reqBody ''model'';
            messages = own_prop reqBody ''messages'';
            customEndpoint = own_prop reqBody ''customEndpoint''
        in
        if \<not> truthy provider \<or> \<not> truthy apiKey \<or> \<not> truthy messages then
          (Inr (failure 400 (JStr ''Missing required fields: provider, apiKey, or messages'')), [])
        else if \<not> is_array messages \<or> messages = JArr [] then
          (Inr (failure 400 (JStr ''Messages must be a non-empty array'')), [])
        else
          (case adapt (num_to_string rt) provider apiKey model messages customEndpoint of
             Throws e \<Rightarrow> (Inl e, [])
           | Responds r \<Rightarrow> (Inr r, [])
           | Continues pr \<Rightarrow>
               let call = outbound_call rt pr in
               (case fetch rt call of
                  Rejects e \<Rightarrow> (Inl e, [call])
                | Replies st parsed \<Rightarrow>
                    (case parsed of
                       Inl e \<Rightarrow> (Inl e, [call])
                     | Inr responseData \<Rightarrow>
                         if \<not> ok st then (upstream_error (stringify rt) st responseData, [call])
                         else (Inr (success (extractResponseText (stringify rt) provider responseData)),
                               [call])))))"

text \<open>\<^verbatim>\<open>error.message\<close> in the handler's \<^verbatim>\<open>catch\<close>.\<close>

fun exn_message :: "runtime \<Rightarrow> exn \<Rightarrow> jsval" where
  "exn_message rt (TypeError k) = JStr (type_error_message rt k)"
| "exn_message rt (Failure m) = JStr m"

text \<open>
  The handler of \<^verbatim>\<open>POST /api/chat\<close>: the response it sends for a request body, and
  the outbound calls it made.
\<close>

definition chat_handler :: "runtime \<Rightarrow> jsval \<Rightarrow> response \<times> fetch_call list" where
  "chat_handler rt reqBody =
     (case handler_try rt reqBody of
        (Inl e, calls) \<Rightarrow>
          (failure 500 (js_or (exn_message rt e) (JStr ''Internal server error'')), calls)
      | (Inr r, calls) \<Rightarrow> (r, calls))"

section \<open>The vocabulary of the specification\<close>

text \<open>
  The definitions of this section follow the words of the specification, not the
  code; the theorems below compare them with the code.
\<close>

text \<open>
  A caller's \<^verbatim>\<open>model\<close>: omitted, or a text. The name sent is the text, or the
  provider's default when the caller omits it or gives the empty text.
\<close>

definition model_value :: "string option \<Rightarrow> jsval" where
  "model_value mdl = (case mdl of None \<Rightarrow> JUndefined | Some n \<Rightarrow> JStr n)"

definition model_name :: "string \<Rightarrow> string option \<Rightarrow> string" where
  "model_name d mdl = (case mdl of None \<Rightarrow> d | Some n \<Rightarrow> if n = [] then d else n)"

text \<open>
  The gemini body entry of a message:
  \<^verbatim>\<open>{role: "model" if assistant else "user", parts: [{text}]}\<close>
\<close>

definition gemini_shape :: "jsval \<Rightarrow> jsval" where
  "gemini_shape m =
     JObj [(''role'', JStr (if own_prop m ''role'' = JStr ''assistant'' then ''model'' else ''user'')),
           (''parts'', JArr [JObj [(''text'', own_prop m ''content'')]])]"

definition has_role :: "string \<Rightarrow> jsval \<Rightarrow> bool" where
  "has_role r m = (own_prop m ''role'' = JStr r)"

text \<open>
  The optional top-level \<^verbatim>\<open>system\<close> field of the anthropic body: the content of
  the first message with role system, when there is one.
\<close>

definition system_field :: "jsval list \<Rightarrow> (string \<times> jsval) list" where
  "system_field ms =
     (case find (has_role ''system'') ms of
        None \<Rightarrow> []
      | Some s \<Rightarrow> [(''system'', own_prop s ''content'')])"

text \<open>
  A request that passes both validation checks of the handler, and the adaptation
  step run on its fields.
\<close>

definition valid_request :: "jsval \<Rightarrow> bool" where
  "valid_request b =
     (\<not> nullish b \<and> truthy (own_prop b ''provider'') \<and> truthy (own_prop b ''apiKey'') \<and>
      is_array (own_prop b ''messages'') \<and> own_prop b ''messages'' \<noteq> JArr [])"

definition adapt_request :: "(rat \<Rightarrow> string) \<Rightarrow> jsval \<Rightarrow> provider_request step" where
  "adapt_request N b =
     adapt N (own_prop b ''provider'') (own_prop b ''apiKey'') (own_prop b ''model'')
       (own_prop b ''messages'') (own_prop b ''customEndpoint'')"

definition supported :: "string list" where
  "supported = [''gemini'', ''openai'', ''anthropic'', ''custom'']"

text \<open>
  A field path of the extraction table, such as \<^verbatim>\<open>choices[0].message.content\<close>, and
  the value a body has there: undefined as soon as a step is missing.
\<close>

datatype seg = Key string | First

fun step_at :: "jsval \<Rightarrow> seg \<Rightarrow> jsval" where
  "step_at v (Key k) = opt_prop v k"
| "step_at v First = opt_index0 v"

definition value_at :: "jsval \<Rightarrow> seg list \<Rightarrow> jsval" where
  "value_at v path = foldl step_at v path"

text \<open>The paths of the extraction table, in the order of the table.\<close>

definition provider_paths :: "jsval \<Rightarrow> seg list list" where
  "provider_paths provider =
     (if provider = JStr ''gemini'' then
        [[Key ''candidates'', First, Key ''content'', Key ''parts'', First, Key ''text'']]
      else if provider = JStr ''openai'' then
        [[Key ''choices'', First, Key ''message'', Key ''content'']]
      else if provider = JStr ''anthropic'' then
        [[Key ''content'', First, Key ''text'']]
      else if provider = JStr ''custom'' then
        [[Key ''response''], [Key ''message''], [Key ''text''],
         [Key ''choices'', First, Key ''message'', Key ''content''],
         [Key ''content'', First, Key ''text'']]
      else [])"

text \<open>
  The text the extraction falls back to when no path of the provider answers:
  the serialized body for custom, a fixed sentence for the others.
\<close>

definition fallback_text :: "(jsval \<Rightarrow> string) \<Rightarrow> jsval \<Rightarrow> jsval \<Rightarrow> jsval" where
  "fallback_text S provider data =
     (if provider = JStr ''custom'' then JStr (S data) else JStr ''No response generated'')"

text \<open>A path is present in a body when the body has a value there.\<close>

definition present :: "jsval \<Rightarrow> seg list \<Rightarrow> bool" where
  "present data path = (value_at data path \<noteq> JUndefined)"

text \<open>
  Instances of what the runtime supplies, for the examples: a printer that prints
  the same text for every argument (the examples do not depend on what is printed),
  and a runtime whose HTTP client gives every call the outcome \<open>r\<close>.
\<close>

definition fixed_text :: "'a \<Rightarrow> string" where
  "fixed_text x = ''?''"

definition upstream :: "fetch_result \<Rightarrow> runtime" where
  "upstream r =
     \<lparr>num_to_string = fixed_text, stringify = fixed_text, type_error_message = fixed_text,
      fetch = (\<lambda>call. r)\<rparr>"

section \<open>Basic facts\<close>

lemma get_prop_defined: "\<not> nullish d \<Longrightarrow> get_prop d k = Inr (own_prop d k)"
  by (simp add: get_prop_def)

lemma opt_prop_defined: "\<not> nullish d \<Longrightarrow> opt_prop d k = own_prop d k"
  by (simp add: opt_prop_def)

lemma get_prop_nullish: "nullish d \<Longrightarrow> get_prop d k = Inl (TypeError k)"
  by (simp add: get_prop_def)

lemma value_at_simps:
  "value_at v [] = v"
  "value_at v (s # path) = value_at (step_at v s) path"
  by (simp_all add: value_at_def)

lemma js_or_string: "is_string a \<Longrightarrow> is_string b \<Longrightarrow> is_string (js_or a b)"
  by (simp add: js_or_def)

lemma model_or_default:
  "js_or (model_value mdl) (JStr d) = JStr (model_name d mdl)"
  by (cases mdl) (simp_all add: js_or_def model_value_def model_name_def)

subsection \<open>The array callbacks on messages that are not null\<close>

lemma array_map_gemini:
  "\<forall>m \<in> set ms. \<not> nullish m \<Longrightarrow> array_map gemini_content ms = Inr (map gemini_shape ms)"
  by (induction ms) (simp_all add: gemini_content_def gemini_shape_def get_prop_def)

lemma array_filter_conversation:
  "\<forall>m \<in> set ms. \<not> nullish m \<Longrightarrow>
   array_filter not_system ms = Inr (filter (\<lambda>m. \<not> has_role ''system'' m) ms)"
  by (induction ms) (simp_all add: not_system_def has_role_def get_prop_def)

lemma array_find_system:
  "\<forall>m \<in> set ms. \<not> nullish m \<Longrightarrow>
   array_find is_system ms =
     Inr (case find (has_role ''system'') ms of None \<Rightarrow> JUndefined | Some s \<Rightarrow> s)"
  by (induction ms) (simp_all add: is_system_def has_role_def get_prop_def)

lemma has_role_truthy: "has_role r m \<Longrightarrow> truthy m"
  by (cases m) (simp_all add: has_role_def)

lemma find_system_truthy: "find (has_role r) ms = Some s \<Longrightarrow> truthy s"
  by (auto simp: find_Some_iff intro: has_role_truthy)

lemma format_anthropic:
  assumes "\<forall>m \<in> set ms. \<not> nullish m"
  shows "formatMessagesForProvider (JStr ''anthropic'') (JArr ms) =
     Inr ([(''messages'', JArr (filter (\<lambda>m. \<not> has_role ''system'' m) ms)),
           (''max_tokens'', JNum 2000)] @ system_field ms)"
proof (cases "find (has_role ''system'') ms")
  case None
  with assms show ?thesis
    by (simp add: formatMessagesForProvider_def array_find_system array_filter_conversation
        system_field_def)
next
  case (Some s)
  then have "truthy s" by (rule find_system_truthy)
  with assms Some show ?thesis
    by (simp add: formatMessagesForProvider_def array_find_system array_filter_conversation
        system_field_def)
qed

subsection \<open>The handler, stage by stage\<close>

lemma handler_try_valid:
  assumes "valid_request b"
  shows "handler_try rt b =
    (case adapt_request (num_to_string rt) b of
       Throws e \<Rightarrow> (Inl e, [])
     | Responds r \<Rightarrow> (Inr r, [])
     | Continues pr \<Rightarrow>
         (case fetch rt (outbound_call rt pr) of
            Rejects e \<Rightarrow> (Inl e, [outbound_call rt pr])
          | Replies st parsed \<Rightarrow>
              (case parsed of
                 Inl e \<Rightarrow> (Inl e, [outbound_call rt pr])
               | Inr d \<Rightarrow>
                   if \<not> ok st then (upstream_error (stringify rt) st d, [outbound_call rt pr])
                   else (Inr (success (extractResponseText (stringify rt) (own_prop b ''provider'') d)),
                         [outbound_call rt pr]))))"
proof -
  from assms have t: "truthy (own_prop b ''messages'')"
    by (cases "own_prop b ''messages''") (simp_all add: valid_request_def)
  from assms t show ?thesis
    by (simp add: handler_try_def valid_request_def adapt_request_def Let_def split: step.split)
qed

lemma handler_missing:
  assumes "\<not> nullish b"
    and "\<not> truthy (own_prop b ''provider'') \<or> \<not> truthy (own_prop b ''apiKey'')
         \<or> \<not> truthy (own_prop b ''messages'')"
  shows "chat_handler rt b =
     (failure 400 (JStr ''Missing required fields: provider, apiKey, or messages''), [])"
  using assms by (auto simp add: chat_handler_def handler_try_def Let_def)

lemma handler_not_array:
  assumes "truthy (own_prop b ''provider'')" and "truthy (own_prop b ''apiKey'')"
    and "truthy (own_prop b ''messages'')"
    and "\<not> is_array (own_prop b ''messages'') \<or> own_prop b ''messages'' = JArr []"
  shows "chat_handler rt b = (failure 400 (JStr ''Messages must be a non-empty array''), [])"
proof -
  from assms(1) have "\<not> nullish b" by (cases b) simp_all
  with assms show ?thesis
    by (auto simp add: chat_handler_def handler_try_def Let_def)
qed

lemma invalid_request:
  assumes "\<not> valid_request b" and "\<not> nullish b"
  shows "\<exists>m. chat_handler rt b = (failure 400 (JStr m), [])"
proof (cases "\<not> truthy (own_prop b ''provider'') \<or> \<not> truthy (own_prop b ''apiKey'')
         \<or> \<not> truthy (own_prop b ''messages'')")
  case True
  with assms(2) show ?thesis by (auto dest: handler_missing)
next
  case False
  moreover from False assms have "\<not> is_array (own_prop b ''messages'') \<or> own_prop b ''messages'' = JArr []"
    by (auto simp add: valid_request_def)
  ultimately show ?thesis using handler_not_array [of b rt] by blast
qed

lemma chat_handler_nullish:
  "nullish b \<Longrightarrow> chat_handler rt b =
     (failure 500 (js_or (exn_message rt (TypeError ''provider'')) (JStr ''Internal server error'')), [])"
  by (simp add: chat_handler_def handler_try_def)

lemma chat_handler_responds:
  "valid_request b \<Longrightarrow> adapt_request (num_to_string rt) b = Responds r \<Longrightarrow>
   chat_handler rt b = (r, [])"
  by (simp add: chat_handler_def handler_try_valid)

lemma chat_handler_throws:
  "valid_request b \<Longrightarrow> adapt_request (num_to_string rt) b = Throws e \<Longrightarrow>
   chat_handler rt b =
     (failure 500 (js_or (exn_message rt e) (JStr ''Internal server error'')), [])"
  by (simp add: chat_handler_def handler_try_valid)

lemma chat_handler_continues:
  "valid_request b \<Longrightarrow> adapt_request (num_to_string rt) b = Continues pr \<Longrightarrow>
   snd (chat_handler rt b) = [outbound_call rt pr]"
  by (simp add: chat_handler_def handler_try_valid upstream_error_def get_prop_def
      split: fetch_result.split sum.split)

lemma chat_handler_rejected:
  assumes "valid_request b" and "adapt_request (num_to_string rt) b = Continues pr"
    and "fetch rt (outbound_call rt pr) = Rejects e \<or> fetch rt (outbound_call rt pr) = Replies st (Inl e)"
  shows "chat_handler rt b =
     (failure 500 (js_or (exn_message rt e) (JStr ''Internal server error'')),
      [outbound_call rt pr])"
  using assms by (auto simp add: chat_handler_def handler_try_valid)

lemma catch_message_string:
  "is_string (js_or (exn_message rt e) (JStr ''Internal server error''))"
  by (cases e) (simp_all add: js_or_def)

lemma adapt_responds_shape:
  "adapt N provider apiKey model messages ce = Responds r \<Longrightarrow> \<exists>m. r = failure 400 (JStr m)"
  by (auto simp add: adapt_def split: if_splits sum.splits)

lemma adapt_supported_not_responds:
  assumes "p = ''gemini'' \<or> p = ''openai'' \<or> p = ''anthropic'' \<or> (p = ''custom'' \<and> truthy ce)"
  shows "adapt N (JStr p) apiKey model messages ce \<noteq> Responds r"
  using assms by (auto simp add: adapt_def split: sum.split)

lemma upstream_error_defined:
  assumes "\<not> nullish d"
  shows "upstream_error S st d =
     Inr (failure st
       (if \<not> truthy (own_prop d ''error'') then JStr ''API request failed''
        else if is_string (own_prop d ''error'') then own_prop d ''error''
        else if truthy (own_prop (own_prop d ''error'') ''message'')
             then own_prop (own_prop d ''error'') ''message''
        else JStr (S (own_prop d ''error''))))"
  using assms by (simp add: upstream_error_def get_prop_defined js_or_def)

lemma upstream_error_nullish:
  "nullish d \<Longrightarrow> upstream_error S st d = Inl (TypeError ''error'')"
  by (simp add: upstream_error_def get_prop_nullish)

lemma chat_handler_replied:
  assumes "valid_request b" and "adapt_request (num_to_string rt) b = Continues pr"
    and "fetch rt (outbound_call rt pr) = Replies st (Inr d)"
  shows "chat_handler rt b =
     (if ok st then success (extractResponseText (stringify rt) (own_prop b ''provider'') d)
      else if nullish d then
        failure 500 (js_or (exn_message rt (TypeError ''error'')) (JStr ''Internal server error''))
      else failure st
       (if \<not> truthy (own_prop d ''error'') then JStr ''API request failed''
        else if is_string (own_prop d ''error'') then own_prop d ''error''
        else if truthy (own_prop (own_prop d ''error'') ''message'')
             then own_prop (own_prop d ''error'') ''message''
        else JStr (stringify rt (own_prop d ''error''))),
      [outbound_call rt pr])"
  using assms
  by (simp add: chat_handler_def handler_try_valid upstream_error_defined upstream_error_nullish)

subsection \<open>The extraction, provider by provider\<close>

lemma extract_gemini:
  "\<not> nullish d \<Longrightarrow> extract_try S (JStr ''gemini'') d =
     Inr (js_or (value_at d [Key ''candidates'', First, Key ''content'', Key ''parts'', First, Key ''text''])
                (JStr ''No response generated''))"
  by (simp add: extract_try_def get_prop_defined opt_prop_defined value_at_simps candidates_path_def)

lemma extract_openai:
  "\<not> nullish d \<Longrightarrow> extract_try S (JStr ''openai'') d =
     Inr (js_or (value_at d [Key ''choices'', First, Key ''message'', Key ''content''])
                (JStr ''No response generated''))"
  by (simp add: extract_try_def get_prop_defined opt_prop_defined value_at_simps choices_path_def)

lemma extract_anthropic:
  "\<not> nullish d \<Longrightarrow> extract_try S (JStr ''anthropic'') d =
     Inr (js_or (value_at d [Key ''content'', First, Key ''text''])
                (JStr ''No response generated''))"
  by (simp add: extract_try_def get_prop_defined opt_prop_defined value_at_simps content_path_def)

lemma extract_custom:
  "\<not> nullish d \<Longrightarrow> extract_try S (JStr ''custom'') d =
     Inr (js_or (value_at d [Key ''response''])
         (js_or (value_at d [Key ''message''])
         (js_or (value_at d [Key ''text''])
         (js_or (value_at d [Key ''choices'', First, Key ''message'', Key ''content''])
         (js_or (value_at d [Key ''content'', First, Key ''text''])
                (JStr (S d)))))))"
  by (simp add: extract_try_def get_prop_defined opt_prop_defined value_at_simps content_path_def
      choices_path_def or_else_def js_or_def)

lemma extract_unknown:
  "provider \<notin> JStr ` set supported \<Longrightarrow>
   extract_try S provider d = Inr (JStr ''Unknown response format'')"
  by (simp add: extract_try_def supported_def)

lemma extract_nullish:
  "nullish d \<Longrightarrow> provider \<in> JStr ` set supported \<Longrightarrow>
   extract_try S provider d = Inl (TypeError
     (if provider = JStr ''gemini'' then ''candidates''
      else if provider = JStr ''openai'' then ''choices''
      else if provider = JStr ''anthropic'' then ''content'' else ''response''))"
  by (auto simp add: extract_try_def supported_def get_prop_nullish or_else_def)

lemma find_truthy_Cons:
  "(case find truthy (v # vs) of Some x \<Rightarrow> x | None \<Rightarrow> d) =
     js_or v (case find truthy vs of Some x \<Rightarrow> x | None \<Rightarrow> d)"
  by (simp add: js_or_def)

lemma extraction_supported:
  assumes "\<not> nullish data" and "provider \<in> JStr ` set supported"
  shows "extractResponseText S provider data =
        (case find truthy (map (value_at data) (provider_paths provider)) of
           Some v \<Rightarrow> v
         | None \<Rightarrow> fallback_text S provider data)"
proof -
  from assms(2) consider "provider = JStr ''gemini''" | "provider = JStr ''openai''"
    | "provider = JStr ''anthropic''" | "provider = JStr ''custom''"
    by (auto simp add: supported_def)
  then show ?thesis
  proof cases
    case 1
    with assms(1) show ?thesis
      by (simp add: extractResponseText_def extract_gemini provider_paths_def fallback_text_def
          find_truthy_Cons del: find.simps(2))
  next
    case 2
    with assms(1) show ?thesis
      by (simp add: extractResponseText_def extract_openai provider_paths_def fallback_text_def
          find_truthy_Cons del: find.simps(2))
  next
    case 3
    with assms(1) show ?thesis
      by (simp add: extractResponseText_def extract_anthropic provider_paths_def fallback_text_def
          find_truthy_Cons del: find.simps(2))
  next
    case 4
    with assms(1) show ?thesis
      by (simp add: extractResponseText_def extract_custom provider_paths_def fallback_text_def
          find_truthy_Cons del: find.simps(2))
  qed
qed

lemma extraction_unknown:
  "provider \<notin> JStr ` set supported \<Longrightarrow>
   extractResponseText S provider data = JStr ''Unknown response format''"
  by (simp add: extractResponseText_def extract_unknown)

lemma extraction_nullish:
  "nullish data \<Longrightarrow> provider \<in> JStr ` set supported \<Longrightarrow>
   extractResponseText S provider data = JStr ''Error parsing response''"
  by (simp add: extractResponseText_def extract_nullish)

lemma extract_try_throws_iff:
  "(\<exists>e. extract_try S provider data = Inl e) \<longleftrightarrow>
     nullish data \<and> provider \<in> JStr ` set supported"
proof (cases "provider \<in> JStr ` set supported")
  case False
  then show ?thesis by (simp add: extract_unknown)
next
  case True
  show ?thesis
  proof (cases "nullish data")
    case True
    with \<open>provider \<in> JStr ` set supported\<close> show ?thesis by (simp add: extract_nullish)
  next
    case False
    from \<open>provider \<in> JStr ` set supported\<close> consider "provider = JStr ''gemini''"
      | "provider = JStr ''openai''" | "provider = JStr ''anthropic''" | "provider = JStr ''custom''"
      by (auto simp add: supported_def)
    then have "\<exists>v. extract_try S provider data = Inr v"
      using False by cases (simp_all add: extract_gemini extract_openai extract_anthropic extract_custom)
    with False show ?thesis by auto
  qed
qed

lemma fallback_text_string: "is_string (fallback_text S provider data)"
  by (simp add: fallback_text_def)

lemma extraction_text_or_found:
  "is_string (extractResponseText S provider data)
   \<or> (\<exists>path \<in> set (provider_paths provider).
         extractResponseText S provider data = value_at data path
         \<and> truthy (value_at data path))"
proof (cases "provider \<in> JStr ` set supported")
  case False
  then show ?thesis by (simp add: extraction_unknown)
next
  case sup: True
  show ?thesis
  proof (cases "nullish data")
    case True
    with sup show ?thesis by (simp add: extraction_nullish)
  next
    case False
    show ?thesis
    proof (cases "find truthy (map (value_at data) (provider_paths provider))")
      case None
      with False sup show ?thesis
        by (simp add: extraction_supported fallback_text_string)
    next
      case (Some v)
      then have "truthy v" and "v \<in> set (map (value_at data) (provider_paths provider))"
        by (auto simp add: find_Some_iff)
      with False sup Some show ?thesis
        by (auto simp add: extraction_supported)
    qed
  qed
qed

subsection \<open>The shape of every response\<close>

lemma chat_handler_shape:
  "\<exists>v. (fst (chat_handler rt b) = success v \<or> (\<exists>c. fst (chat_handler rt b) = failure c v))
     \<and> (is_string v
        \<or> (\<exists>call st d. snd (chat_handler rt b) = [call] \<and> fetch rt call = Replies st (Inr d)
              \<and> truthy v
              \<and> (v = own_prop (own_prop d ''error'') ''message''
                 \<or> (\<exists>path \<in> set (provider_paths (own_prop b ''provider'')). v = value_at d path))))"
  (is "\<exists>v. ?shape v \<and> (is_string v \<or> ?found v)")
proof -
  have text_failure: ?thesis if "chat_handler rt b = (failure c v, calls)" and "is_string v"
    for c v calls
  proof -
    from that(1) have "fst (chat_handler rt b) = failure c v" by simp
    then have "?shape v" by (intro disjI2 exI)
    with that(2) have both: "?shape v \<and> (is_string v \<or> ?found v)" by simp
    show ?thesis by (rule exI [of _ v]) (rule both)
  qed
  have upstream_value: ?thesis
    if "fst (chat_handler rt b) = success v \<or> fst (chat_handler rt b) = failure c v"
      and "snd (chat_handler rt b) = [call]" and "fetch rt call = Replies st (Inr d)"
      and "truthy v"
      and "v = own_prop (own_prop d ''error'') ''message''
           \<or> (\<exists>path \<in> set (provider_paths (own_prop b ''provider'')). v = value_at d path)"
    for c v call st d
  proof -
    from that(1) have "?shape v" by (elim disjE) (rule disjI1, assumption, rule disjI2, rule exI)
    moreover from that(2-5) have "?found v" by (intro exI conjI)
    ultimately have both: "?shape v \<and> (is_string v \<or> ?found v)" by simp
    show ?thesis by (rule exI [of _ v]) (rule both)
  qed
  show ?thesis
  proof (cases "nullish b")
    case True
    then show ?thesis
      by (rule text_failure [OF chat_handler_nullish catch_message_string])
  next
    case nn: False
    show ?thesis
    proof (cases "valid_request b")
      case False
      with nn obtain m where "chat_handler rt b = (failure 400 (JStr m), [])"
        using invalid_request by blast
      then show ?thesis by (rule text_failure) simp
    next
      case valid: True
      show ?thesis
      proof (cases "adapt_request (num_to_string rt) b")
        case (Throws e)
        show ?thesis
          by (rule text_failure [OF chat_handler_throws [OF valid Throws] catch_message_string])
      next
        case (Responds r)
        then obtain m where "r = failure 400 (JStr m)"
          unfolding adapt_request_def by (blast dest: adapt_responds_shape)
        with valid Responds have "chat_handler rt b = (failure 400 (JStr m), [])"
          by (simp add: chat_handler_responds)
        then show ?thesis by (rule text_failure) simp
      next
        case (Continues pr)
        show ?thesis
        proof (cases "fetch rt (outbound_call rt pr)")
          case (Rejects e)
          show ?thesis
            by (rule text_failure
                [OF chat_handler_rejected [OF valid Continues disjI1 [OF Rejects]]
                    catch_message_string])
        next
          case (Replies st parsed)
          show ?thesis
          proof (cases parsed)
            case (Inl e)
            show ?thesis
              by (rule text_failure
                  [OF chat_handler_rejected [OF valid Continues disjI2 [OF Replies [unfolded Inl]]]
                      catch_message_string])
          next
            case (Inr d)
            note reply = Replies [unfolded Inr]
            note h = chat_handler_replied [OF valid Continues reply]
            show ?thesis
            proof (cases "ok st")
              case True
              let ?v = "extractResponseText (stringify rt) (own_prop b ''provider'') d"
              from True h have r: "chat_handler rt b = (success ?v, [outbound_call rt pr])"
                by simp
              from extraction_text_or_found [of "stringify rt" "own_prop b ''provider''" d]
              consider "is_string ?v"
                | "truthy ?v" and "\<exists>path \<in> set (provider_paths (own_prop b ''provider'')).
                     ?v = value_at d path"
                by metis
              then show ?thesis
              proof cases
                case 1
                with r have both: "?shape ?v \<and> (is_string ?v \<or> ?found ?v)" by simp
                show ?thesis by (rule exI [of _ ?v]) (rule both)
              next
                case 2
                show ?thesis
                  by (rule upstream_value [of ?v _ "outbound_call rt pr" st d])
                     (simp_all add: r reply 2)
              qed
            next
              case False
              show ?thesis
              proof (cases "nullish d")
                case True
                with h False have "chat_handler rt b =
                    (failure 500 (js_or (exn_message rt (TypeError ''error''))
                       (JStr ''Internal server error'')), [outbound_call rt pr])"
                  by simp
                then show ?thesis by (rule text_failure [OF _ catch_message_string])
              next
                case nd: False
                let ?err = "own_prop d ''error''"
                let ?msg = "own_prop ?err ''message''"
                show ?thesis
                proof (cases "truthy ?err \<and> \<not> is_string ?err \<and> truthy ?msg")
                  case True
                  with h False nd have r: "chat_handler rt b = (failure st ?msg, [outbound_call rt pr])"
                    by simp
                  show ?thesis
                    by (rule upstream_value [of ?msg st "outbound_call rt pr" st d])
                       (simp_all add: r reply True)
                next
                  case other: False
                  from h False nd obtain v where r: "chat_handler rt b = (failure st v, [outbound_call rt pr])"
                    and v: "v = (if \<not> truthy ?err then JStr ''API request failed''
                              else if is_string ?err then ?err
                              else if truthy ?msg then ?msg
                              else JStr (stringify rt ?err))"
                    by simp
                  from v other have "is_string v" by auto
                  with r show ?thesis by (rule text_failure)
                qed
              qed
            qed
          qed
        qed
      qed
    qed
  qed
qed

section \<open>Request adaptation\<close>

text \<open>
  Claim C1, amended. For provider gemini and a list of messages none of which is null,
  the adaptation step goes on with the URL
  \<^verbatim>\<open>https://generativelanguage.googleapis.com/v1beta/models/{model}:generateContent?key={apiKey}\<close>,
  where the model is the caller's text, or \<^verbatim>\<open>gemini-2.0-flash-exp\<close> when the caller
  omits it or gives the empty text. The only header is the content type, so the key
  travels in the URL alone, and the body is \<^verbatim>\<open>{contents: [...]}\<close> with one entry
  per message, in order: role \<^verbatim>\<open>model\<close> for an assistant message and \<^verbatim>\<open>user\<close>
  for every other one (a system message too), and the content as the text of the
  single part.
\<close>

theorem gemini_adaptation:
  assumes "\<forall>m \<in> set ms. \<not> nullish m"
  shows "adapt N (JStr ''gemini'') (JStr apiKey) (model_value mdl) (JArr ms) customEndpoint =
     Continues
       \<lparr>endpoint = JStr (''https://generativelanguage.googleapis.com/v1beta/models/''
                         @ model_name ''gemini-2.0-flash-exp'' mdl
                         @ '':generateContent?key='' @ apiKey),
        headers = [(''Content-Type'', JStr ''application/json'')],
        body = JObj [(''contents'', JArr (map gemini_shape ms))]\<rparr>"
  using assms
  by (simp add: adapt_def formatMessagesForProvider_def array_map_gemini model_or_default
      gemini_endpoint_def)

text \<open>
  Instances of C1: a system, an assistant and a user message with no model given,
  where the system message goes out with role \<^verbatim>\<open>user\<close>; and a single message
  with the model \<^verbatim>\<open>gemini-pro\<close>.
\<close>

theorem gemini_adaptation_witness:
  "adapt fixed_text (JStr ''gemini'') (JStr ''k'') JUndefined
     (JArr [JObj [(''role'', JStr ''system''), (''content'', JStr ''S'')],
            JObj [(''role'', JStr ''assistant''), (''content'', JStr ''A'')],
            JObj [(''role'', JStr ''user''), (''content'', JStr ''U'')]])
     JUndefined =
   Continues
     \<lparr>endpoint = JStr ''https://generativelanguage.googleapis.com/v1beta/models/gemini-2.0-flash-exp:generateContent?key=k'',
      headers = [(''Content-Type'', JStr ''application/json'')],
      body = JObj [(''contents'', JArr
        [JObj [(''role'', JStr ''user''), (''parts'', JArr [JObj [(''text'', JStr ''S'')]])],
         JObj [(''role'', JStr ''model''), (''parts'', JArr [JObj [(''text'', JStr ''A'')]])],
         JObj [(''role'', JStr ''user''), (''parts'', JArr [JObj [(''text'', JStr ''U'')]])]])]\<rparr>
   \<and>
   adapt fixed_text (JStr ''gemini'') (JStr ''k'') (JStr ''gemini-pro'')
     (JArr [JObj [(''role'', JStr ''user''), (''content'', JStr ''U'')]])
     JUndefined =
   Continues
     \<lparr>endpoint = JStr ''https://generativelanguage.googleapis.com/v1beta/models/gemini-pro:generateContent?key=k'',
      headers = [(''Content-Type'', JStr ''application/json'')],
      body = JObj [(''contents'', JArr
        [JObj [(''role'', JStr ''user''), (''parts'', JArr [JObj [(''text'', JStr ''U'')]])]])]\<rparr>"
  using gemini_adaptation [of
      "[JObj [(''role'', JStr ''system''), (''content'', JStr ''S'')],
        JObj [(''role'', JStr ''assistant''), (''content'', JStr ''A'')],
        JObj [(''role'', JStr ''user''), (''content'', JStr ''U'')]]"
      fixed_text "''k''" None JUndefined]
    gemini_adaptation [of
      "[JObj [(''role'', JStr ''user''), (''content'', JStr ''U'')]]"
      fixed_text "''k''" "Some ''gemini-pro''" JUndefined]
  by (simp add: model_value_def model_name_def gemini_shape_def)

text \<open>
  C1 as stated puts the caller's model in the URL and takes the default only when the
  caller omits the model. For a request whose model is present and is the empty text,
  the URL carries \<^verbatim>\<open>gemini-2.0-flash-exp\<close>, not the caller's empty model.
\<close>

theorem gemini_adaptation_counterexample:
  "JStr [] \<noteq> JUndefined
   \<and> adapt fixed_text (JStr ''gemini'') (JStr ''k'') (JStr [])
       (JArr [JObj [(''role'', JStr ''user''), (''content'', JStr ''U'')]])
       JUndefined =
     Continues
       \<lparr>endpoint = JStr ''https://generativelanguage.googleapis.com/v1beta/models/gemini-2.0-flash-exp:generateContent?key=k'',
        headers = [(''Content-Type'', JStr ''application/json'')],
        body = JObj [(''contents'', JArr
          [JObj [(''role'', JStr ''user''), (''parts'', JArr [JObj [(''text'', JStr ''U'')]])]])]\<rparr>
   \<and> ''https://generativelanguage.googleapis.com/v1beta/models/gemini-2.0-flash-exp:generateContent?key=k''
     \<noteq> ''https://generativelanguage.googleapis.com/v1beta/models/'' @ [] @ '':generateContent?key=k''"
  by (simp add: adapt_def formatMessagesForProvider_def gemini_content_def get_prop_def
      js_or_def gemini_endpoint_def)

text \<open>
  Claim C2. For provider anthropic, every model value and a list of messages none of
  which is null, the body carries \<^verbatim>\<open>model\<close>: the caller's model or else
  \<^verbatim>\<open>claude-3-5-sonnet-20241022\<close> (the default when the caller omits the model, and
  also when the model is the empty text), then \<^verbatim>\<open>messages\<close>: the input messages whose
  role is not system, in their order, then \<^verbatim>\<open>max_tokens: 2000\<close>, then, when some
  message has role system, \<^verbatim>\<open>system\<close>: the content of the first such message. The
  key goes in the \<^verbatim>\<open>x-api-key\<close> header, beside a fixed \<^verbatim>\<open>anthropic-version\<close>.
\<close>

theorem anthropic_adaptation:
  assumes "\<forall>m \<in> set ms. \<not> nullish m"
  shows "adapt N (JStr ''anthropic'') apiKey model (JArr ms) customEndpoint =
     Continues
       \<lparr>endpoint = JStr ''https://api.anthropic.com/v1/messages'',
        headers = [(''Content-Type'', JStr ''application/json''),
                   (''x-api-key'', apiKey),
                   (''anthropic-version'', JStr ''2023-06-01'')],
        body = JObj ([(''model'', js_or model (JStr ''claude-3-5-sonnet-20241022'')),
                      (''messages'', JArr (filter (\<lambda>m. \<not> has_role ''system'' m) ms)),
                      (''max_tokens'', JNum 2000)] @ system_field ms)\<rparr>
     \<and> js_or (model_value mdl) (JStr ''claude-3-5-sonnet-20241022'') =
         JStr (model_name ''claude-3-5-sonnet-20241022'' mdl)"
proof
  from assms show "adapt N (JStr ''anthropic'') apiKey model (JArr ms) customEndpoint =
     Continues
       \<lparr>endpoint = JStr ''https://api.anthropic.com/v1/messages'',
        headers = [(''Content-Type'', JStr ''application/json''),
                   (''x-api-key'', apiKey),
                   (''anthropic-version'', JStr ''2023-06-01'')],
        body = JObj ([(''model'', js_or model (JStr ''claude-3-5-sonnet-20241022'')),
                      (''messages'', JArr (filter (\<lambda>m. \<not> has_role ''system'' m) ms)),
                      (''max_tokens'', JNum 2000)] @ system_field ms)\<rparr>"
    by (cases "find (has_role ''system'') ms")
       (simp_all add: adapt_def format_anthropic system_field_def)
  show "js_or (model_value mdl) (JStr ''claude-3-5-sonnet-20241022'') =
         JStr (model_name ''claude-3-5-sonnet-20241022'' mdl)"
    by (rule model_or_default)
qed

text \<open>
  The example of the specification for C2: for a system message S followed by a user
  message U and no model, the body has the default model, \<^verbatim>\<open>system: "S"\<close> and only
  U among its messages.
\<close>

theorem anthropic_adaptation_witness:
  "adapt fixed_text (JStr ''anthropic'') (JStr ''k'') JUndefined
     (JArr [JObj [(''role'', JStr ''system''), (''content'', JStr ''S'')],
            JObj [(''role'', JStr ''user''), (''content'', JStr ''U'')]])
     JUndefined =
   Continues
     \<lparr>endpoint = JStr ''https://api.anthropic.com/v1/messages'',
      headers = [(''Content-Type'', JStr ''application/json''),
                 (''x-api-key'', JStr ''k''),
                 (''anthropic-version'', JStr ''2023-06-01'')],
      body = JObj [(''model'', JStr ''claude-3-5-sonnet-20241022''),
                   (''messages'', JArr [JObj [(''role'', JStr ''user''), (''content'', JStr ''U'')]]),
                   (''max_tokens'', JNum 2000),
                   (''system'', JStr ''S'')]\<rparr>"
  using anthropic_adaptation [of
      "[JObj [(''role'', JStr ''system''), (''content'', JStr ''S'')],
        JObj [(''role'', JStr ''user''), (''content'', JStr ''U'')]]"
      fixed_text "JStr ''k''" JUndefined JUndefined None]
  by (simp add: js_or_def system_field_def has_role_def)

text \<open>
  Claim C9, amended. For provider custom with a truthy \<^verbatim>\<open>customEndpoint\<close> (for a
  text: a non-empty one) and a text key, the adapted request targets the caller's
  endpoint, carries \<^verbatim>\<open>Authorization: Bearer {apiKey}\<close>, and its body is exactly
  \<^verbatim>\<open>{messages: ...}\<close> with the input messages unchanged. The caller's model does
  not occur in the request, whatever it is.
\<close>

theorem custom_adaptation:
  assumes "truthy customEndpoint"
  shows "adapt N (JStr ''custom'') (JStr apiKey) model messages customEndpoint =
     Continues
       \<lparr>endpoint = customEndpoint,
        headers = [(''Content-Type'', JStr ''application/json''),
                   (''Authorization'', JStr (''Bearer '' @ apiKey))],
        body = JObj [(''messages'', messages)]\<rparr>"
  using assms by (simp add: adapt_def formatMessagesForProvider_def)

text \<open>An instance of C9, with a model the request does not carry.\<close>

theorem custom_adaptation_witness:
  "adapt fixed_text (JStr ''custom'') (JStr ''k'') (JStr ''my-model'')
     (JArr [JObj [(''role'', JStr ''user''), (''content'', JStr ''hi'')]])
     (JStr ''https://example.org/chat'') =
   Continues
     \<lparr>endpoint = JStr ''https://example.org/chat'',
      headers = [(''Content-Type'', JStr ''application/json''),
                 (''Authorization'', JStr ''Bearer k'')],
      body = JObj [(''messages'',
                    JArr [JObj [(''role'', JStr ''user''), (''content'', JStr ''hi'')]])]\<rparr>"
  using custom_adaptation [of "JStr ''https://example.org/chat''" fixed_text "''k''"
      "JStr ''my-model''" "JArr [JObj [(''role'', JStr ''user''), (''content'', JStr ''hi'')]]"]
  by simp

text \<open>
  C9 as stated, for every present \<^verbatim>\<open>customEndpoint\<close>, fails when the endpoint is
  present and empty: the handler answers 400 and makes no call.
\<close>

theorem custom_adaptation_counterexample:
  "own_prop (JObj [(''provider'', JStr ''custom''), (''apiKey'', JStr ''k''),
            (''messages'', JArr [JObj [(''role'', JStr ''user''), (''content'', JStr ''hi'')]]),
            (''customEndpoint'', JStr [])]) ''customEndpoint'' = JStr []
   \<and> chat_handler (upstream (Replies 200 (Inr (JObj [(''response'', JStr ''hello'')]))))
      (JObj [(''provider'', JStr ''custom''), (''apiKey'', JStr ''k''),
             (''messages'', JArr [JObj [(''role'', JStr ''user''), (''content'', JStr ''hi'')]]),
             (''customEndpoint'', JStr [])])
     = (failure 400 (JStr ''Custom endpoint required for custom provider''), [])"
  by (simp add: chat_handler_def handler_try_def adapt_def)

text \<open>
  Claim C8, amended. For a request that passed validation and whose provider is a
  text, the handler answers with status 400 and without an outbound call exactly when
  the provider is custom and \<^verbatim>\<open>customEndpoint\<close> is absent or falsy, or the provider
  is none of gemini, openai, anthropic, custom. The error is
  \<^verbatim>\<open>Custom endpoint required for custom provider\<close> in the first case and
  \<^verbatim>\<open>Unsupported provider: \<close> followed by the provider in the second.
\<close>

theorem adaptation_failure:
  assumes "valid_request b" and "own_prop b ''provider'' = JStr p"
  shows "((\<exists>m. chat_handler rt b = (failure 400 m, [])) \<longleftrightarrow>
            (p = ''custom'' \<and> \<not> truthy (own_prop b ''customEndpoint'')) \<or> p \<notin> set supported)
     \<and> (p = ''custom'' \<and> \<not> truthy (own_prop b ''customEndpoint'') \<longrightarrow>
          chat_handler rt b =
            (failure 400 (JStr ''Custom endpoint required for custom provider''), []))
     \<and> (p \<notin> set supported \<longrightarrow>
          chat_handler rt b = (failure 400 (JStr (''Unsupported provider: '' @ p)), []))"
proof -
  let ?ce = "own_prop b ''customEndpoint''"
  let ?a = "adapt_request (num_to_string rt) b"
  have custom: "chat_handler rt b =
      (failure 400 (JStr ''Custom endpoint required for custom provider''), [])"
    if "p = ''custom''" and "\<not> truthy ?ce"
  proof -
    from that assms(2) have "?a =
        Responds (failure 400 (JStr ''Custom endpoint required for custom provider''))"
      by (simp add: adapt_request_def adapt_def)
    with assms(1) show ?thesis by (rule chat_handler_responds)
  qed
  have unsupported: "chat_handler rt b =
      (failure 400 (JStr (''Unsupported provider: '' @ p)), [])"
    if "p \<notin> set supported"
  proof -
    from that assms(2) have "?a = Responds (failure 400 (JStr (''Unsupported provider: '' @ p)))"
      by (simp add: adapt_request_def adapt_def supported_def)
    with assms(1) show ?thesis by (rule chat_handler_responds)
  qed
  have other: "chat_handler rt b \<noteq> (failure 400 m, [])"
    if "\<not> (p = ''custom'' \<and> \<not> truthy ?ce)" and "p \<in> set supported" for m
  proof (cases ?a)
    case (Throws e)
    with assms(1) have "chat_handler rt b =
        (failure 500 (js_or (exn_message rt e) (JStr ''Internal server error'')), [])"
      by (simp add: chat_handler_throws)
    then show ?thesis by (simp add: failure_def)
  next
    case (Responds r)
    moreover from that have "p = ''gemini'' \<or> p = ''openai'' \<or> p = ''anthropic''
        \<or> (p = ''custom'' \<and> truthy ?ce)"
      by (auto simp add: supported_def)
    ultimately show ?thesis
      using adapt_supported_not_responds [of p ?ce "num_to_string rt"] assms(2)
      by (simp add: adapt_request_def)
  next
    case (Continues pr)
    with assms(1) have "snd (chat_handler rt b) = [outbound_call rt pr]"
      by (rule chat_handler_continues)
    then show ?thesis by auto
  qed
  from custom unsupported other show ?thesis by blast
qed

text \<open>Instances of C8: custom without an endpoint, and an unknown provider.\<close>

theorem adaptation_failure_witness:
  "chat_handler (upstream (Rejects (Failure ''offline'')))
      (JObj [(''provider'', JStr ''custom''), (''apiKey'', JStr ''k''),
             (''messages'', JArr [JObj [(''role'', JStr ''user''), (''content'', JStr ''hi'')]])])
      = (failure 400 (JStr ''Custom endpoint required for custom provider''), [])
   \<and> chat_handler (upstream (Rejects (Failure ''offline'')))
      (JObj [(''provider'', JStr ''unknown''), (''apiKey'', JStr ''k''),
             (''messages'', JArr [JObj [(''role'', JStr ''user''), (''content'', JStr ''hi'')]])])
      = (failure 400 (JStr ''Unsupported provider: unknown''), [])"
  using adaptation_failure [of
      "JObj [(''provider'', JStr ''custom''), (''apiKey'', JStr ''k''),
             (''messages'', JArr [JObj [(''role'', JStr ''user''), (''content'', JStr ''hi'')]])]"
      "''custom''" "upstream (Rejects (Failure ''offline''))"]
    adaptation_failure [of
      "JObj [(''provider'', JStr ''unknown''), (''apiKey'', JStr ''k''),
             (''messages'', JArr [JObj [(''role'', JStr ''user''), (''content'', JStr ''hi'')]])]"
      "''unknown''" "upstream (Rejects (Failure ''offline''))"]
  by (simp add: valid_request_def supported_def)

text \<open>
  C8 as stated says the custom provider fails only when the endpoint is absent; it
  fails as well when the endpoint is present and empty.
\<close>

theorem adaptation_failure_counterexample:
  "JStr [] \<noteq> JUndefined
   \<and> adapt fixed_text (JStr ''custom'') (JStr ''k'') JUndefined
       (JArr [JObj [(''role'', JStr ''user''), (''content'', JStr ''hi'')]]) (JStr [])
     = Responds (failure 400 (JStr ''Custom endpoint required for custom provider''))"
  by (simp add: adapt_def)

section \<open>Validation\<close>

text \<open>
  Claim C7, amended. When the request body is an object or another value that is not
  null, and provider, apiKey or messages is absent or falsy, the handler answers 400 with
  \<^verbatim>\<open>Missing required fields: provider, apiKey, or messages\<close>. When the three are
  truthy and messages is not an array or is the empty array, it answers 400 with
  \<^verbatim>\<open>Messages must be a non-empty array\<close>. In both cases it makes no outbound call.
\<close>

theorem validation_errors:
  "(\<not> nullish b \<and>
      (\<not> truthy (own_prop b ''provider'') \<or> \<not> truthy (own_prop b ''apiKey'')
       \<or> \<not> truthy (own_prop b ''messages'')) \<longrightarrow>
    chat_handler rt b =
      (failure 400 (JStr ''Missing required fields: provider, apiKey, or messages''), []))
   \<and>
   (truthy (own_prop b ''provider'') \<and> truthy (own_prop b ''apiKey'')
      \<and> truthy (own_prop b ''messages'')
      \<and> (\<not> is_array (own_prop b ''messages'') \<or> own_prop b ''messages'' = JArr []) \<longrightarrow>
    chat_handler rt b = (failure 400 (JStr ''Messages must be a non-empty array''), []))"
  using handler_missing [of b rt] handler_not_array [of b rt] by blast

text \<open>
  Instances of C7: the two examples of the specification, a request without provider
  and key, and a request with an empty message list.
\<close>

theorem validation_errors_witness:
  "chat_handler (upstream (Rejects (Failure ''offline'')))
     (JObj [(''messages'', JArr [JObj [(''role'', JStr ''user''), (''content'', JStr ''hi'')]])]) =
     (failure 400 (JStr ''Missing required fields: provider, apiKey, or messages''), [])
   \<and>
   chat_handler (upstream (Rejects (Failure ''offline'')))
     (JObj [(''provider'', JStr ''gemini''), (''apiKey'', JStr ''k''), (''messages'', JArr [])]) =
     (failure 400 (JStr ''Messages must be a non-empty array''), [])"
  using validation_errors [of
      "JObj [(''messages'', JArr [JObj [(''role'', JStr ''user''), (''content'', JStr ''hi'')]])]"
      "upstream (Rejects (Failure ''offline''))"]
    validation_errors [of
      "JObj [(''provider'', JStr ''gemini''), (''apiKey'', JStr ''k''), (''messages'', JArr [])]"
      "upstream (Rejects (Failure ''offline''))"]
  by simp

text \<open>
  C7 as stated gives the non-empty-array error to every messages value that is present
  and is not a non-empty array. For the empty string, which is present and is not an
  array, the handler gives the missing-fields error.
\<close>

theorem validation_errors_counterexample:
  "own_prop (JObj [(''provider'', JStr ''gemini''), (''apiKey'', JStr ''k''), (''messages'', JStr [])])
     ''messages'' \<noteq> JUndefined
   \<and> \<not> is_array (JStr [])
   \<and> chat_handler (upstream (Rejects (Failure ''offline'')))
       (JObj [(''provider'', JStr ''gemini''), (''apiKey'', JStr ''k''), (''messages'', JStr [])])
     = (failure 400 (JStr ''Missing required fields: provider, apiKey, or messages''), [])
   \<and> failure 400 (JStr ''Missing required fields: provider, apiKey, or messages'')
     \<noteq> failure 400 (JStr ''Messages must be a non-empty array'')"
  by (simp add: chat_handler_def handler_try_def failure_def)

text \<open>
  Claim C10. Presence is tested by truthiness: a request whose provider or apiKey is
  the empty string is answered with status 400 and
  \<^verbatim>\<open>Missing required fields: provider, apiKey, or messages\<close>, without an outbound
  call, exactly as a request where that field is absent (\<open>v\<close> is the empty string or
  undefined).
\<close>

theorem empty_string_is_missing:
  assumes "v = JStr [] \<or> v = JUndefined"
    and "\<not> nullish b"
    and "own_prop b ''provider'' = v \<or> own_prop b ''apiKey'' = v"
  shows "chat_handler rt b =
     (failure 400 (JStr ''Missing required fields: provider, apiKey, or messages''), [])"
  using assms by (intro handler_missing) auto

text \<open>Instances of C10: an empty provider, and an empty key.\<close>

theorem empty_string_is_missing_witness:
  "chat_handler (upstream (Rejects (Failure ''offline'')))
     (JObj [(''provider'', JStr []), (''apiKey'', JStr ''k''),
            (''messages'', JArr [JObj [(''role'', JStr ''user''), (''content'', JStr ''hi'')]])]) =
     (failure 400 (JStr ''Missing required fields: provider, apiKey, or messages''), [])
   \<and>
   chat_handler (upstream (Rejects (Failure ''offline'')))
     (JObj [(''provider'', JStr ''openai''), (''apiKey'', JStr []),
            (''messages'', JArr [JObj [(''role'', JStr ''user''), (''content'', JStr ''hi'')]])]) =
     (failure 400 (JStr ''Missing required fields: provider, apiKey, or messages''), [])"
  using empty_string_is_missing [of "JStr []"
      "JObj [(''provider'', JStr []), (''apiKey'', JStr ''k''),
            (''messages'', JArr [JObj [(''role'', JStr ''user''), (''content'', JStr ''hi'')]])]"
      "upstream (Rejects (Failure ''offline''))"]
    empty_string_is_missing [of "JStr []"
      "JObj [(''provider'', JStr ''openai''), (''apiKey'', JStr []),
            (''messages'', JArr [JObj [(''role'', JStr ''user''), (''content'', JStr ''hi'')]])]"
      "upstream (Rejects (Failure ''offline''))"]
  by simp

section \<open>Response extraction\<close>

text \<open>
  Claim C3, amended. For a body that is not null and a provider among gemini, openai,
  anthropic, custom, the extraction returns the value at the first of the provider's
  paths, in the order of the table, whose value is truthy; when no path has a truthy
  value it returns \<^verbatim>\<open>No response generated\<close> for gemini, openai and anthropic and the
  serialized body for custom. For every other provider value it returns
  \<^verbatim>\<open>Unknown response format\<close>, whatever the body.
\<close>

theorem extraction_first_truthy:
  "(\<not> nullish data \<and> provider \<in> JStr ` set supported \<longrightarrow>
      extractResponseText S provider data =
        (case find truthy (map (value_at data) (provider_paths provider)) of
           Some v \<Rightarrow> v
         | None \<Rightarrow> fallback_text S provider data))
   \<and> (provider \<notin> JStr ` set supported \<longrightarrow>
      extractResponseText S provider data = JStr ''Unknown response format'')"
  by (simp add: extraction_supported extraction_unknown)

text \<open>
  Instances of C3, from the examples of the specification: a gemini reply, an empty
  gemini body, a custom body with \<^verbatim>\<open>message\<close>, a custom body with none of the known
  fields, an unknown provider.
\<close>

theorem extraction_first_truthy_witness:
  "extractResponseText fixed_text (JStr ''gemini'')
     (JObj [(''candidates'',
        JArr [JObj [(''content'', JObj [(''parts'', JArr [JObj [(''text'', JStr ''hi'')]])])]])])
     = JStr ''hi''
   \<and> extractResponseText fixed_text (JStr ''gemini'') (JObj []) = JStr ''No response generated''
   \<and> extractResponseText fixed_text (JStr ''custom'') (JObj [(''message'', JStr ''m'')]) = JStr ''m''
   \<and> extractResponseText fixed_text (JStr ''custom'') (JObj [(''foo'', JStr ''bar'')])
     = JStr (fixed_text (JObj [(''foo'', JStr ''bar'')]))
   \<and> extractResponseText fixed_text (JStr ''unknown'') (JObj []) = JStr ''Unknown response format''"
  using extraction_first_truthy [of
        "JObj [(''candidates'',
          JArr [JObj [(''content'', JObj [(''parts'', JArr [JObj [(''text'', JStr ''hi'')]])])]])]"
        "JStr ''gemini''" fixed_text]
    extraction_first_truthy [of "JObj []" "JStr ''gemini''" fixed_text]
    extraction_first_truthy [of "JObj [(''message'', JStr ''m'')]" "JStr ''custom''" fixed_text]
    extraction_first_truthy [of "JObj [(''foo'', JStr ''bar'')]" "JStr ''custom''" fixed_text]
    extraction_first_truthy [of "JObj []" "JStr ''unknown''" fixed_text]
  by (simp add: supported_def provider_paths_def value_at_simps opt_prop_def opt_index0_def
      fallback_text_def)

text \<open>
  C3 as stated returns the value at the first path that is present. In the custom body
  \<^verbatim>\<open>{response: "", message: "m"}\<close> the path \<^verbatim>\<open>response\<close> is present and holds the
  empty string, and the extraction returns \<^verbatim>\<open>m\<close>. For the body \<^verbatim>\<open>null\<close>, where no
  path is present, openai gets \<^verbatim>\<open>Error parsing response\<close> and not
  \<^verbatim>\<open>No response generated\<close>.
\<close>

theorem extraction_first_truthy_counterexample:
  "present (JObj [(''response'', JStr []), (''message'', JStr ''m'')]) [Key ''response'']
   \<and> value_at (JObj [(''response'', JStr []), (''message'', JStr ''m'')]) [Key ''response''] = JStr []
   \<and> extractResponseText fixed_text (JStr ''custom'')
        (JObj [(''response'', JStr []), (''message'', JStr ''m'')]) = JStr ''m''
   \<and> extractResponseText fixed_text (JStr ''openai'') JNull = JStr ''Error parsing response''"
  by (simp add: present_def value_at_simps opt_prop_def extractResponseText_def extract_try_def
      or_else_def get_prop_def)

text \<open>
  Claim C4, amended. For every provider value and every body the extraction returns a
  value and never throws. The value is a text, or else a truthy value that is not a
  text and stands in the body at one of the provider's paths. The traversal throws
  exactly when the body is null or undefined and the provider is one of the four
  known ones, and every exception becomes the text \<^verbatim>\<open>Error parsing response\<close>.
\<close>

theorem extraction_never_fails:
  "(is_string (extractResponseText S provider data)
     \<or> (\<exists>path \<in> set (provider_paths provider).
           extractResponseText S provider data = value_at data path
           \<and> truthy (value_at data path)))
   \<and> ((\<exists>e. extract_try S provider data = Inl e) \<longleftrightarrow>
        nullish data \<and> provider \<in> JStr ` set supported)
   \<and> ((\<exists>e. extract_try S provider data = Inl e) \<longrightarrow>
        extractResponseText S provider data = JStr ''Error parsing response'')"
proof (intro conjI)
  show "(\<exists>e. extract_try S provider data = Inl e) \<longrightarrow>
        extractResponseText S provider data = JStr ''Error parsing response''"
    by (auto simp add: extractResponseText_def)
qed (rule extraction_text_or_found, rule extract_try_throws_iff)

text \<open>Instances of C4: the body \<^verbatim>\<open>null\<close>, and an anthropic reply.\<close>

theorem extraction_never_fails_witness:
  "extractResponseText fixed_text (JStr ''anthropic'') JNull = JStr ''Error parsing response''
   \<and> is_string (extractResponseText fixed_text (JStr ''anthropic'')
        (JObj [(''content'', JArr [JObj [(''text'', JStr ''hi'')]])]))"
  using extraction_never_fails [of fixed_text "JStr ''anthropic''" JNull]
    extraction_never_fails [of fixed_text "JStr ''anthropic''"
      "JObj [(''content'', JArr [JObj [(''text'', JStr ''hi'')]])]"]
  by (auto simp add: supported_def provider_paths_def value_at_simps opt_prop_def opt_index0_def)

text \<open>
  C4 as stated promises a text for every body. For the custom body
  \<^verbatim>\<open>{response: 42}\<close> the extraction returns the number 42.
\<close>

theorem extraction_never_fails_counterexample:
  "extractResponseText fixed_text (JStr ''custom'') (JObj [(''response'', JNum 42)]) = JNum 42
   \<and> \<not> is_string (JNum 42)"
  by (simp add: extractResponseText_def extract_try_def or_else_def get_prop_def)

section \<open>Upstream failures and the handler boundary\<close>

text \<open>
  Claim C5, amended. When the upstream call answers with a status outside 200 to 299
  and a JSON body that is not null, the handler answers with that status, success
  false and an error message: \<^verbatim>\<open>API request failed\<close> when the body's \<^verbatim>\<open>error\<close>
  field is absent or falsy; the field itself when it is a non-empty text; otherwise
  its \<^verbatim>\<open>message\<close> field when that is truthy, and otherwise the serialized
  \<^verbatim>\<open>error\<close> value. Exactly one outbound call was made.
\<close>

theorem upstream_failure:
  assumes "valid_request b" and "adapt_request (num_to_string rt) b = Continues pr"
    and "fetch rt (outbound_call rt pr) = Replies st (Inr d)"
    and "\<not> ok st" and "\<not> nullish d"
  shows "\<exists>m. chat_handler rt b = (failure st m, [outbound_call rt pr])
     \<and> (\<not> truthy (own_prop d ''error'') \<longrightarrow> m = JStr ''API request failed'')
     \<and> (truthy (own_prop d ''error'') \<and> is_string (own_prop d ''error'') \<longrightarrow>
          m = own_prop d ''error'')
     \<and> (truthy (own_prop d ''error'') \<and> \<not> is_string (own_prop d ''error'')
          \<and> truthy (own_prop (own_prop d ''error'') ''message'') \<longrightarrow>
          m = own_prop (own_prop d ''error'') ''message'')
     \<and> (truthy (own_prop d ''error'') \<and> \<not> is_string (own_prop d ''error'')
          \<and> \<not> truthy (own_prop (own_prop d ''error'') ''message'') \<longrightarrow>
          m = JStr (stringify rt (own_prop d ''error'')))"
  using assms by (simp add: chat_handler_replied)

text \<open>
  The example of the specification for C5: status 401 with body
  \<^verbatim>\<open>{error: {message: "bad key"}}\<close>.
\<close>

theorem upstream_failure_witness:
  "fst (chat_handler
     (upstream (Replies 401 (Inr (JObj [(''error'', JObj [(''message'', JStr ''bad key'')])]))))
     (JObj [(''provider'', JStr ''openai''), (''apiKey'', JStr ''k''),
            (''messages'', JArr [JObj [(''role'', JStr ''user''), (''content'', JStr ''hi'')]])]))
   = failure 401 (JStr ''bad key'')"
  using upstream_failure [of
      "JObj [(''provider'', JStr ''openai''), (''apiKey'', JStr ''k''),
            (''messages'', JArr [JObj [(''role'', JStr ''user''), (''content'', JStr ''hi'')]])]"
      "upstream (Replies 401 (Inr (JObj [(''error'', JObj [(''message'', JStr ''bad key'')])])))"
      "\<lparr>endpoint = JStr ''https://api.openai.com/v1/chat/completions'',
        headers = [(''Content-Type'', JStr ''application/json''),
                   (''Authorization'', JStr ''Bearer k'')],
        body = JObj [(''model'', JStr ''gpt-4o-mini''),
                     (''messages'', JArr [JObj [(''role'', JStr ''user''), (''content'', JStr ''hi'')]]),
                     (''temperature'', JNum (7 / 10)),
                     (''max_tokens'', JNum 2000)]\<rparr>"
      401 "JObj [(''error'', JObj [(''message'', JStr ''bad key'')])]"]
  by (auto simp add: valid_request_def adapt_request_def adapt_def formatMessagesForProvider_def
      upstream_def js_or_def ok_def)

text \<open>
  C5 as stated uses a text \<^verbatim>\<open>error\<close> field directly and keeps the upstream status
  for every failing reply. With \<^verbatim>\<open>{error: ""}\<close> and status 404 the message is the
  generic one, not the empty text; with the body \<^verbatim>\<open>null\<close> and status 404 the handler
  answers 500.
\<close>

theorem upstream_failure_counterexample:
  "is_string (own_prop (JObj [(''error'', JStr [])]) ''error'')
   \<and> fst (chat_handler (upstream (Replies 404 (Inr (JObj [(''error'', JStr [])]))))
       (JObj [(''provider'', JStr ''openai''), (''apiKey'', JStr ''k''),
              (''messages'', JArr [JObj [(''role'', JStr ''user''), (''content'', JStr ''hi'')]])]))
     = failure 404 (JStr ''API request failed'')
   \<and> status (fst (chat_handler (upstream (Replies 404 (Inr JNull)))
       (JObj [(''provider'', JStr ''openai''), (''apiKey'', JStr ''k''),
              (''messages'', JArr [JObj [(''role'', JStr ''user''), (''content'', JStr ''hi'')]])])))
     = 500"
  by (simp add: chat_handler_def handler_try_def adapt_def formatMessagesForProvider_def
      upstream_def js_or_def ok_def upstream_error_def get_prop_def failure_def to_string.simps)

text \<open>
  Claim C6, amended. For every request body the handler sends
  \<^verbatim>\<open>{success: true, response: v}\<close> or \<^verbatim>\<open>{success: false, error: v}\<close>, where \<open>v\<close> is
  a text, or else a truthy value that is not a text and was read from the upstream body
  (the \<^verbatim>\<open>message\<close> of its \<^verbatim>\<open>error\<close>, or the value at one of the provider's
  paths). Every exception of the handler's \<^verbatim>\<open>try\<close> block becomes
  \<^verbatim>\<open>{success: false, error: ...}\<close> with status 500, the error being the
  exception's message, or \<^verbatim>\<open>Internal server error\<close> when that is empty: a text in
  both cases. This covers a rejected \<^verbatim>\<open>fetch\<close> and an upstream body that is not
  JSON.
\<close>

theorem handler_result_shapes:
  "(\<exists>v. (fst (chat_handler rt b) = success v \<or> (\<exists>c. fst (chat_handler rt b) = failure c v))
     \<and> (is_string v
        \<or> (\<exists>call st d. snd (chat_handler rt b) = [call] \<and> fetch rt call = Replies st (Inr d)
              \<and> truthy v
              \<and> (v = own_prop (own_prop d ''error'') ''message''
                 \<or> (\<exists>path \<in> set (provider_paths (own_prop b ''provider'')). v = value_at d path)))))
   \<and> (\<forall>e calls. handler_try rt b = (Inl e, calls) \<longrightarrow>
         chat_handler rt b =
           (failure 500 (js_or (exn_message rt e) (JStr ''Internal server error'')), calls)
         \<and> is_string (js_or (exn_message rt e) (JStr ''Internal server error'')))
   \<and> (valid_request b \<and> adapt_request (num_to_string rt) b = Continues pr
        \<and> (fetch rt (outbound_call rt pr) = Rejects e'
           \<or> fetch rt (outbound_call rt pr) = Replies st' (Inl e')) \<longrightarrow>
         chat_handler rt b =
           (failure 500 (js_or (exn_message rt e') (JStr ''Internal server error'')),
            [outbound_call rt pr]))"
proof (intro conjI allI impI)
  fix e calls
  assume "handler_try rt b = (Inl e, calls)"
  then show "chat_handler rt b =
      (failure 500 (js_or (exn_message rt e) (JStr ''Internal server error'')), calls)"
    by (simp add: chat_handler_def)
  show "is_string (js_or (exn_message rt e) (JStr ''Internal server error''))"
    by (rule catch_message_string)
next
  assume "valid_request b \<and> adapt_request (num_to_string rt) b = Continues pr
        \<and> (fetch rt (outbound_call rt pr) = Rejects e'
           \<or> fetch rt (outbound_call rt pr) = Replies st' (Inl e'))"
  then show "chat_handler rt b =
           (failure 500 (js_or (exn_message rt e') (JStr ''Internal server error'')),
            [outbound_call rt pr])"
    using chat_handler_rejected [of b rt pr e' st'] by blast
qed (rule chat_handler_shape)

text \<open>
  Instances of C6: a transport failure with a message, and an upstream body that
  fails to parse, with an empty message.
\<close>

theorem handler_result_shapes_witness:
  "fst (chat_handler (upstream (Rejects (Failure ''socket hang up'')))
     (JObj [(''provider'', JStr ''custom''), (''apiKey'', JStr ''k''),
            (''messages'', JArr [JObj [(''role'', JStr ''user''), (''content'', JStr ''hi'')]]),
            (''customEndpoint'', JStr ''https://example.org/chat'')]))
   = failure 500 (JStr ''socket hang up'')
   \<and> fst (chat_handler (upstream (Replies 200 (Inl (Failure []))))
     (JObj [(''provider'', JStr ''custom''), (''apiKey'', JStr ''k''),
            (''messages'', JArr [JObj [(''role'', JStr ''user''), (''content'', JStr ''hi'')]]),
            (''customEndpoint'', JStr ''https://example.org/chat'')]))
   = failure 500 (JStr ''Internal server error'')"
  using handler_result_shapes [THEN conjunct2, THEN conjunct2, of
      "JObj [(''provider'', JStr ''custom''), (''apiKey'', JStr ''k''),
            (''messages'', JArr [JObj [(''role'', JStr ''user''), (''content'', JStr ''hi'')]]),
            (''customEndpoint'', JStr ''https://example.org/chat'')]"
      "upstream (Rejects (Failure ''socket hang up''))"
      "\<lparr>endpoint = JStr ''https://example.org/chat'',
        headers = [(''Content-Type'', JStr ''application/json''),
                   (''Authorization'', JStr ''Bearer k'')],
        body = JObj [(''messages'',
                      JArr [JObj [(''role'', JStr ''user''), (''content'', JStr ''hi'')]])]\<rparr>"
      "Failure ''socket hang up''" 0]
    handler_result_shapes [THEN conjunct2, THEN conjunct2, of
      "JObj [(''provider'', JStr ''custom''), (''apiKey'', JStr ''k''),
            (''messages'', JArr [JObj [(''role'', JStr ''user''), (''content'', JStr ''hi'')]]),
            (''customEndpoint'', JStr ''https://example.org/chat'')]"
      "upstream (Replies 200 (Inl (Failure [])))"
      "\<lparr>endpoint = JStr ''https://example.org/chat'',
        headers = [(''Content-Type'', JStr ''application/json''),
                   (''Authorization'', JStr ''Bearer k'')],
        body = JObj [(''messages'',
                      JArr [JObj [(''role'', JStr ''user''), (''content'', JStr ''hi'')]])]\<rparr>"
      "Failure []" 200]
  by (simp add: valid_request_def adapt_request_def adapt_def formatMessagesForProvider_def
      upstream_def js_or_def)

text \<open>
  C6 as stated makes \<^verbatim>\<open>error\<close> a text in every response. When the upstream answers
  status 400 with \<^verbatim>\<open>{error: {message: 7}}\<close>, the handler sends the number 7 as the
  error.
\<close>

theorem handler_result_shapes_counterexample:
  "fst (chat_handler
     (upstream (Replies 400 (Inr (JObj [(''error'', JObj [(''message'', JNum 7)])]))))
     (JObj [(''provider'', JStr ''openai''), (''apiKey'', JStr ''k''),
            (''messages'', JArr [JObj [(''role'', JStr ''user''), (''content'', JStr ''hi'')]])]))
   = failure 400 (JNum 7)
   \<and> \<not> is_string (JNum 7)"
  by (simp add: chat_handler_def handler_try_def adapt_def formatMessagesForProvider_def
      upstream_def js_or_def ok_def upstream_error_def get_prop_def)

end
